theory Spec2Isabelle
  imports Complex_Main "HOL-Library.Log_Nat"
begin

section \<open>Values of a float64 column\<close>

text \<open>
  The functions of \<^verbatim>\<open>rdtools/availability.py\<close> work on pandas Series and DataFrames
  of dtype float64.  A cell is missing (\<open>NaN\<close>), an infinity, or a finite number.
  The operations \<open>fadd\<close>, \<open>fsub\<close>, \<open>fmul\<close> and \<open>fdiv\<close> are exact on finite
  numbers; \<open>rnd\<close> rounds a result to the nearest float64.  The result is rounded in the
  two places where a property below depends on it: the sum and the difference of lines
  187 to 189 of \<open>downtime_loss\<close>, and the group mean of \<open>signal_to_profile\<close>.
  Everywhere else the properties proved are comparisons and case distinctions that do
  not depend on the rounding of a result.  The sign of zero is not part of the model (a
  division by zero yields the infinity of the sign of the numerator, and \<open>NaN\<close> for
  \<open>0 / 0\<close>, as numpy does for a positive zero).
\<close>

datatype fval = NaN | NInf | Fin real | PInf

fun fneg :: "fval \<Rightarrow> fval" where
  "fneg NaN = NaN"
| "fneg NInf = PInf"
| "fneg PInf = NInf"
| "fneg (Fin a) = Fin (- a)"

fun fadd :: "fval \<Rightarrow> fval \<Rightarrow> fval" where
  "fadd NaN _ = NaN"
| "fadd _ NaN = NaN"
| "fadd PInf NInf = NaN"
| "fadd NInf PInf = NaN"
| "fadd PInf _ = PInf"
| "fadd _ PInf = PInf"
| "fadd NInf _ = NInf"
| "fadd _ NInf = NInf"
| "fadd (Fin a) (Fin b) = Fin (a + b)"

definition fsub :: "fval \<Rightarrow> fval \<Rightarrow> fval" where
  "fsub a b = fadd a (fneg b)"

text \<open>The sign of a value that is not \<open>NaN\<close>, and the infinity of a sign.\<close>

fun fsgn :: "fval \<Rightarrow> real" where
  "fsgn NaN = 0"
| "fsgn NInf = - 1"
| "fsgn PInf = 1"
| "fsgn (Fin a) = sgn a"

definition inf_of_sign :: "real \<Rightarrow> fval" where
  "inf_of_sign s = (if s = 0 then NaN else if 0 < s then PInf else NInf)"

fun fmul :: "fval \<Rightarrow> fval \<Rightarrow> fval" where
  "fmul NaN _ = NaN"
| "fmul _ NaN = NaN"
| "fmul (Fin a) (Fin b) = Fin (a * b)"
| "fmul a b = inf_of_sign (fsgn a * fsgn b)"

fun fdiv :: "fval \<Rightarrow> fval \<Rightarrow> fval" where
  "fdiv NaN _ = NaN"
| "fdiv _ NaN = NaN"
| "fdiv (Fin a) (Fin b) = (if b = 0 then inf_of_sign (sgn a) else Fin (a / b))"
| "fdiv (Fin a) _ = Fin 0"
| "fdiv a (Fin b) = inf_of_sign (fsgn a * (if b < 0 then - 1 else 1))"
| "fdiv _ _ = NaN"

text \<open>Comparisons: every comparison with \<open>NaN\<close> is false.\<close>

fun flt :: "fval \<Rightarrow> fval \<Rightarrow> bool" where
  "flt NaN _ = False"
| "flt _ NaN = False"
| "flt (Fin a) (Fin b) = (a < b)"
| "flt NInf NInf = False"
| "flt NInf _ = True"
| "flt _ NInf = False"
| "flt PInf _ = False"
| "flt _ PInf = True"

fun fle :: "fval \<Rightarrow> fval \<Rightarrow> bool" where
  "fle NaN _ = False"
| "fle _ NaN = False"
| "fle (Fin a) (Fin b) = (a \<le> b)"
| "fle NInf _ = True"
| "fle _ PInf = True"
| "fle _ _ = False"

definition fgt :: "fval \<Rightarrow> fval \<Rightarrow> bool" where
  "fgt a b = flt b a"

definition notna :: "fval \<Rightarrow> bool" where
  "notna x = (x \<noteq> NaN)"

definition fillna :: "fval \<Rightarrow> fval \<Rightarrow> fval" where
  "fillna v x = (if x = NaN then v else x)"

text \<open>A Python value used as a condition: a float is false exactly when it is zero.\<close>

definition truthy :: "fval \<Rightarrow> bool" where
  "truthy x = (x \<noteq> Fin 0)"

section \<open>Rounding to float64\<close>

text \<open>
  IEEE 754 binary64, round to nearest, ties to even: 53 significant bits, the smallest
  positive number \<open>2 ^ - 1074\<close>, and an infinity for a rounded magnitude of
  \<open>2 ^ 1024\<close> or more.  \<open>ilog2 x\<close> is the exponent \<open>e\<close> with
  \<open>2 ^ e \<le> x < 2 ^ (e + 1)\<close> of a positive \<open>x\<close>; the magnitude is rounded to a
  multiple \<open>m * 2 ^ q\<close> of the spacing \<open>2 ^ q\<close> of the float64 numbers around it,
  and \<open>m * 2 ^ q\<close> reaches \<open>2 ^ 1024\<close> exactly when \<open>e\<close> is 1024 or more, or
  \<open>e\<close> is 1023 and \<open>m\<close> is \<open>2 ^ 53\<close>.
\<close>

definition pow2 :: "int \<Rightarrow> real" where
  "pow2 e = (if 0 \<le> e then 2 ^ nat e else 1 / 2 ^ nat (- e))"

definition ilog2 :: "real \<Rightarrow> int" where
  "ilog2 x =
     (if 1 \<le> x then bitlen \<lfloor>x\<rfloor> - 1
      else let k = bitlen \<lfloor>1 / x\<rfloor> - 1
           in if 1 / x = 2 ^ nat k then - k else - k - 1)"

definition round_half_even :: "real \<Rightarrow> int" where
  "round_half_even x =
     (let f = \<lfloor>x\<rfloor>; r = x - of_int f
      in if r < 1 / 2 then f else if 1 / 2 < r then f + 1 else if even f then f else f + 1)"

definition round64 :: "real \<Rightarrow> fval" where
  "round64 x =
     (if x = 0 then Fin 0
      else let a = \<bar>x\<bar>;
               e = ilog2 a;
               q = max (e - 52) (- 1074);
               m = round_half_even (a / pow2 q)
           in if 1024 \<le> e \<or> (e = 1023 \<and> m = 2 ^ 53) then (if 0 < x then PInf else NInf)
              else Fin (sgn x * (of_int m * pow2 q)))"

fun rnd :: "fval \<Rightarrow> fval" where
  "rnd (Fin x) = round64 x"
| "rnd v = v"

text \<open>
  The cells a float64 column can hold: the finite ones are the numbers that rounding
  leaves unchanged.
\<close>

fun is_float64 :: "fval \<Rightarrow> bool" where
  "is_float64 (Fin x) = (round64 x = Fin x)"
| "is_float64 _ = True"

section \<open>Reductions of pandas\<close>

text \<open>
  \<^verbatim>\<open>sum\<close>, \<^verbatim>\<open>mean\<close>, \<^verbatim>\<open>median\<close>, \<^verbatim>\<open>min\<close> and \<^verbatim>\<open>quantile\<close> skip missing cells
  (\<^verbatim>\<open>skipna=True\<close>); of no cell at all the sum is 0 and the others are missing.
\<close>

primrec fsum :: "fval list \<Rightarrow> fval" where
  "fsum [] = Fin 0"
| "fsum (x # xs) = fadd x (fsum xs)"

definition sum_skipna :: "fval list \<Rightarrow> fval" where
  "sum_skipna xs = fsum (filter notna xs)"

definition mean_skipna :: "fval list \<Rightarrow> fval" where
  "mean_skipna xs =
     (let ys = filter notna xs
      in if ys = [] then NaN else fdiv (fsum ys) (Fin (real (length ys))))"

definition fmin :: "fval \<Rightarrow> fval \<Rightarrow> fval" where
  "fmin a b = (if fle a b then a else b)"

fun fmin_list :: "fval list \<Rightarrow> fval" where
  "fmin_list [] = NaN"
| "fmin_list [x] = x"
| "fmin_list (x # xs) = fmin x (fmin_list xs)"

definition min_skipna :: "fval list \<Rightarrow> fval" where
  "min_skipna xs = fmin_list (filter notna xs)"

primrec insort_f :: "fval \<Rightarrow> fval list \<Rightarrow> fval list" where
  "insort_f x [] = [x]"
| "insort_f x (y # ys) = (if fle x y then x # y # ys else y # insort_f x ys)"

definition sort_f :: "fval list \<Rightarrow> fval list" where
  "sort_f xs = foldr insort_f xs []"

definition median_skipna :: "fval list \<Rightarrow> fval" where
  "median_skipna xs =
     (let ys = sort_f (filter notna xs); n = length ys
      in if n = 0 then NaN
         else if odd n then ys ! (n div 2)
         else fdiv (fadd (ys ! (n div 2 - 1)) (ys ! (n div 2))) (Fin 2))"

text \<open>
  The group mean of \<^verbatim>\<open>pivot_table\<close>: the cells of a group that are not missing are
  added one after the other and the sum is divided by their number, each result a
  float64.
\<close>

definition float64_sum :: "fval list \<Rightarrow> fval" where
  "float64_sum xs = foldl (\<lambda>s x. rnd (fadd s x)) (Fin 0) xs"

definition group_mean :: "fval list \<Rightarrow> fval" where
  "group_mean xs =
     (let ys = filter notna xs
      in if ys = [] then NaN
         else rnd (fdiv (float64_sum ys) (Fin (real (length ys)))))"

text \<open>
  \<^verbatim>\<open>quantile(q)\<close> with the default linear interpolation: the value at the virtual
  position \<open>(n - 1) * q\<close> of the sorted cells.  The interpolation is numpy's: from the
  lower neighbour for a weight below one half and from the upper neighbour otherwise.
\<close>

definition lerp :: "fval \<Rightarrow> fval \<Rightarrow> real \<Rightarrow> fval" where
  "lerp a b t =
     (if 1 / 2 \<le> t then fsub b (fmul (fsub b a) (Fin (1 - t)))
      else fadd a (fmul (fsub b a) (Fin t)))"

definition quantile :: "real \<Rightarrow> fval list \<Rightarrow> fval" where
  "quantile q xs =
     (let ys = sort_f (filter notna xs); n = length ys
      in if n = 0 then NaN
         else let h = real (n - 1) * q;
                  lo = nat \<lfloor>h\<rfloor>;
                  hi = min (lo + 1) (n - 1)
              in lerp (ys ! lo) (ys ! hi) (h - real lo))"

text \<open>\<^verbatim>\<open>clip\<close>: a missing cell stays missing, and a missing bound does not clip.\<close>

definition clip_lower :: "fval \<Rightarrow> fval \<Rightarrow> fval" where
  "clip_lower lo x = (if flt x lo then lo else x)"

definition clip_upper :: "fval \<Rightarrow> fval \<Rightarrow> fval" where
  "clip_upper up x = (if fgt x up then up else x)"

text \<open>
  With two scalar bounds pandas first drops a missing bound and then orders the two
  (\<^verbatim>\<open>lower, upper = min(lower, upper), max(lower, upper)\<close>).
\<close>

definition clip :: "fval \<Rightarrow> fval \<Rightarrow> fval \<Rightarrow> fval" where
  "clip lo up x =
     (if lo = NaN then clip_upper up x
      else if up = NaN then clip_lower lo x
      else if fle lo up then clip_upper up (clip_lower lo x)
      else clip_upper lo (clip_lower up x))"

section \<open>Time axis and tables\<close>

record timestamp =
  year :: nat
  month :: nat
  day :: nat
  hour :: nat
  minute :: nat

text \<open>
  A DataFrame over the time axis: its index, the number of its columns
  (\<^verbatim>\<open>shape[1]\<close>) and one row of cells per timestamp.  Columns are identified by their
  position; a Series over the columns (a per-inverter threshold) is a list in the same
  order.  A Series over the time axis is the list of its values.
\<close>

record 'a frame =
  df_index :: "timestamp list"
  df_ncols :: nat
  df_values :: "'a list list"

definition wf_frame :: "'a frame \<Rightarrow> bool" where
  "wf_frame df =
     (length (df_values df) = length (df_index df) \<and>
      list_all (\<lambda>r. length r = df_ncols df) (df_values df))"

definition df_columns :: "'a frame \<Rightarrow> 'a list list" where
  "df_columns df = map (\<lambda>j. map (\<lambda>r. r ! j) (df_values df)) [0..<df_ncols df]"

definition df_fillna :: "fval \<Rightarrow> fval frame \<Rightarrow> fval frame" where
  "df_fillna v df = df\<lparr>df_values := map (map (fillna v)) (df_values df)\<rparr>"

section \<open>profile\_to\_signal and signal\_to\_profile\<close>

text \<open>
  The typical-production profile: a table with one row per hour label
  (\<open>p_index\<close>) and one column per month label (\<open>p_columns\<close>).  \<open>p_values\<close> holds
  the table column by column: one list of cells, in the order of \<open>p_index\<close>, for each
  month of \<open>p_columns\<close>.  \<open>p_columns_name\<close> is the name of the column axis
  (\<^verbatim>\<open>profile.columns.name\<close>), if it has one.
\<close>

record profile =
  p_index :: "nat list"
  p_columns :: "nat list"
  p_columns_name :: "string option"
  p_values :: "fval list list"

text \<open>
  The profiles that \<open>profile_to_signal\<close> accepts: the column axis is named
  \<^verbatim>\<open>Month\<close>, as \<open>signal_to_profile\<close> names it, and no hour or month label occurs
  twice.
\<close>

definition wf_profile :: "profile \<Rightarrow> bool" where
  "wf_profile p =
     (p_columns_name p = Some ''Month'' \<and>
      distinct (p_index p) \<and> distinct (p_columns p) \<and>
      length (p_values p) = length (p_columns p) \<and>
      list_all (\<lambda>c. length c = length (p_index p)) (p_values p))"

text \<open>The cell of a profile at an hour and a month, if the table has that row and column.\<close>

definition profile_at :: "profile \<Rightarrow> nat \<Rightarrow> nat \<Rightarrow> fval option" where
  "profile_at p h m =
     (case map_of (zip (p_columns p) (p_values p)) m of
        None \<Rightarrow> None
      | Some c \<Rightarrow> map_of (zip (p_index p) c) h)"

definition cell :: "profile \<Rightarrow> nat \<Rightarrow> nat \<Rightarrow> fval" where
  "cell p h m = (case profile_at p h m of None \<Rightarrow> NaN | Some v \<Rightarrow> v)"

datatype error = KeyError | ValueError

text \<open>
  \<^verbatim>\<open>profile.melt(id_vars=['Hour'], value_vars=months)\<close>: the columns stacked one after
  the other, a row of hour label, month label and value for each cell.  The column of
  the month labels gets the name of the column axis, and the name \<^verbatim>\<open>variable\<close> when
  the axis has none.
\<close>

definition melt_var_name :: "profile \<Rightarrow> string" where
  "melt_var_name p = (case p_columns_name p of None \<Rightarrow> ''variable'' | Some n \<Rightarrow> n)"

definition melt :: "profile \<Rightarrow> (nat \<times> nat \<times> fval) list" where
  "melt p =
     concat (map (\<lambda>(m, c). map (\<lambda>(h, v). (h, m, v)) (zip (p_index p) c))
                 (zip (p_columns p) (p_values p)))"

text \<open>
  \<^verbatim>\<open>pd.merge(aux, profile, on=['Month', 'Hour'], how='left')\<close>: for each row of
  \<open>aux\<close>, in order, the values of all rows of the melted profile with the same key,
  and one missing value when there is none.
\<close>

definition merge_left :: "(nat \<times> nat) list \<Rightarrow> (nat \<times> nat \<times> fval) list \<Rightarrow> fval list" where
  "merge_left aux prof =
     concat (map (\<lambda>(h, m).
                let ms = filter (\<lambda>(h', m', v). m' = m \<and> h' = h) prof
                in if ms = [] then [NaN] else map (\<lambda>(h', m', v). v) ms) aux)"

text \<open>
  Line 205, \<^verbatim>\<open>profile['Month']\<close>, raises a KeyError when the melted month column
  has another name.  \<^verbatim>\<open>signal.index = times\<close> raises a ValueError when the merge did
  not return one row per timestamp.
\<close>

definition profile_to_signal :: "profile \<Rightarrow> timestamp list \<Rightarrow> error + fval list" where
  "profile_to_signal p time_axis =
     (let aux = map (\<lambda>t. (hour t, month t)) time_axis
      in if melt_var_name p \<noteq> ''Month'' then Inl KeyError
         else let signal = merge_left aux (melt p)
              in if length signal \<noteq> length time_axis then Inl ValueError else Inr signal)"

text \<open>
  \<^verbatim>\<open>pivot_table(values='value', index='Hour', columns='Month')\<close>: the mean of the
  values of each (Hour, Month) group; groups whose mean is missing are dropped; the
  remaining groups are laid out with sorted hour and month labels, a cell without a
  group being missing.  The column axis of the result is named \<^verbatim>\<open>Month\<close>.
\<close>

definition signal_to_profile :: "(timestamp \<times> fval) list \<Rightarrow> profile" where
  "signal_to_profile signal =
     (let aux = map (\<lambda>(t, v). ((hour t, month t), v)) signal;
          groups = remdups (map fst aux);
          agged = map (\<lambda>k. (k, group_mean (map snd (filter (\<lambda>(k', v). k' = k) aux)))) groups;
          table = filter (\<lambda>(k, v). notna v) agged;
          hours = sort (remdups (map (\<lambda>((h, m), v). h) table));
          months = sort (remdups (map (\<lambda>((h, m), v). m) table))
      in \<lparr>p_index = hours, p_columns = months, p_columns_name = Some ''Month'',
          p_values = map (\<lambda>m. map (\<lambda>h. case map_of table (h, m) of None \<Rightarrow> NaN | Some v \<Rightarrow> v)
                                   hours) months\<rparr>)"

section \<open>is\_online\<close>

text \<open>
  \<open>low_limit\<close> is a float, used for all inverters, or a Series with one threshold per
  inverter.
\<close>

datatype low_limit = Scalar fval | PerInverter "fval list"

text \<open>The threshold an inverter's column is compared with.\<close>

definition limit_at :: "low_limit \<Rightarrow> nat \<Rightarrow> fval" where
  "limit_at l j = (case l of Scalar c \<Rightarrow> c | PerInverter cs \<Rightarrow> cs ! j)"

text \<open>
  \<^verbatim>\<open>np.sum(low_limit)\<close>: the sum of a Series (missing thresholds skipped), and the
  number itself when \<open>low_limit\<close> is a float.
\<close>

definition np_sum :: "low_limit \<Rightarrow> fval" where
  "np_sum l = (case l of Scalar c \<Rightarrow> c | PerInverter cs \<Rightarrow> sum_skipna cs)"

text \<open>Line 46: \<^verbatim>\<open>0.01 * inverters.quantile(0.99)\<close>, one threshold per column.\<close>

definition default_low_limit :: "fval frame \<Rightarrow> low_limit" where
  "default_low_limit inverters =
     PerInverter (map (\<lambda>c. fmul (Fin (1 / 100)) (quantile (99 / 100) c)) (df_columns inverters))"

definition resolve_low_limit :: "fval frame \<Rightarrow> low_limit option \<Rightarrow> low_limit" where
  "resolve_low_limit inverters low_limit =
     (case low_limit of None \<Rightarrow> default_low_limit inverters | Some l \<Rightarrow> l)"

text \<open>
  In the definitions below \<open>inverters\<close> and \<open>meter\<close> are the inputs after
  \<^verbatim>\<open>fillna(0)\<close> and \<open>l\<close> is the resolved threshold.  Each definition is one variable
  of the source; a Series over the time axis has one value per row of \<open>inverters\<close>.

  \<^verbatim>\<open>inverters[inverters > low_limit]\<close>: the readings above the threshold, the others
  missing.
\<close>

definition inverters_above :: "fval frame \<Rightarrow> low_limit \<Rightarrow> fval list list" where
  "inverters_above inverters l =
     map (\<lambda>r. map (\<lambda>j. if fgt (r ! j) (limit_at l j) then r ! j else NaN)
                  [0..<df_ncols inverters])
         (df_values inverters)"

text \<open>Line 51.\<close>

definition mean_reported_power :: "fval frame \<Rightarrow> low_limit \<Rightarrow> fval list" where
  "mean_reported_power inverters l = map mean_skipna (inverters_above inverters l)"

text \<open>Lines 57 to 59: the median over time of each column divided by the row means.\<close>

definition relative_sizing :: "fval frame \<Rightarrow> low_limit \<Rightarrow> fval list" where
  "relative_sizing inverters l =
     map (\<lambda>j. median_skipna
                 (map (\<lambda>t. fdiv (inverters_above inverters l ! t ! j)
                                 (mean_reported_power inverters l ! t))
                      [0..<length (df_values inverters)]))
         [0..<df_ncols inverters]"

text \<open>Lines 60 to 62.\<close>

definition mean_sized_power :: "fval frame \<Rightarrow> low_limit \<Rightarrow> fval list" where
  "mean_sized_power inverters l =
     map (\<lambda>r. mean_skipna (map (\<lambda>j. fdiv (r ! j) (relative_sizing inverters l ! j))
                                 [0..<df_ncols inverters]))
         (inverters_above inverters l)"

text \<open>Line 65.\<close>

definition all_inverters_appear_offline :: "fval frame \<Rightarrow> low_limit \<Rightarrow> bool list" where
  "all_inverters_appear_offline inverters l =
     map (\<lambda>r. list_all (\<lambda>j. flt (r ! j) (limit_at l j)) [0..<df_ncols inverters])
         (df_values inverters)"

text \<open>Line 66: \<open>mean_inverter_power\<close> as the rest of the function uses it.\<close>

definition mean_inverter_power :: "fval frame \<Rightarrow> fval list \<Rightarrow> low_limit \<Rightarrow> fval list" where
  "mean_inverter_power inverters meter l =
     map (\<lambda>t. if all_inverters_appear_offline inverters l ! t
               then fdiv (meter ! t) (Fin (real (df_ncols inverters)))
               else mean_sized_power inverters l ! t)
         [0..<length (df_values inverters)]"

text \<open>Lines 69 and 70.\<close>

definition meter_appears_offline :: "fval list \<Rightarrow> low_limit \<Rightarrow> bool list" where
  "meter_appears_offline meter l = map (\<lambda>m. flt m (np_sum l)) meter"

definition site_offline :: "fval frame \<Rightarrow> fval list \<Rightarrow> low_limit \<Rightarrow> bool list" where
  "site_offline inverters meter l =
     map (\<lambda>t. all_inverters_appear_offline inverters l ! t \<and> meter_appears_offline meter l ! t)
         [0..<length (df_values inverters)]"

text \<open>Line 74.\<close>

definition meter_delta :: "fval frame \<Rightarrow> fval list \<Rightarrow> low_limit \<Rightarrow> fval list" where
  "meter_delta inverters meter l =
     map (\<lambda>t. fsub (Fin 1)
                 (fdiv (meter ! t)
                       (fmul (Fin (real (df_ncols inverters)))
                             (mean_inverter_power inverters meter l ! t))))
         [0..<length (df_values inverters)]"

text \<open>Line 78.\<close>

definition inverter_fraction :: "fval frame \<Rightarrow> low_limit \<Rightarrow> fval list" where
  "inverter_fraction inverters l =
     map (\<lambda>s. fdiv s (sum_skipna (relative_sizing inverters l))) (relative_sizing inverters l)"

text \<open>
  Lines 79 to 83: \<^verbatim>\<open>inverters.le(low_limit)\<close> with \<open>False\<close> replaced by a missing
  value, times the fractions (\<open>True\<close> counts as 1), the minimum of each row, and 1 for a
  row without a minimum.
\<close>

definition smallest_delta :: "fval frame \<Rightarrow> low_limit \<Rightarrow> fval list" where
  "smallest_delta inverters l =
     map (\<lambda>r. fillna (Fin 1)
                 (min_skipna (map (\<lambda>j. fmul (if fle (r ! j) (limit_at l j) then Fin 1 else NaN)
                                             (inverter_fraction inverters l ! j))
                                  [0..<df_ncols inverters])))
         (df_values inverters)"

text \<open>Line 84.\<close>

definition meter_appears_low :: "fval frame \<Rightarrow> fval list \<Rightarrow> low_limit \<Rightarrow> bool list" where
  "meter_appears_low inverters meter l =
     map (\<lambda>t. fgt (meter_delta inverters meter l ! t)
                   (fmul (Fin (3 / 4)) (smallest_delta inverters l ! t)))
         [0..<length (df_values inverters)]"

text \<open>Lines 89 and 90.\<close>

definition inverters_appear_offline :: "fval frame \<Rightarrow> low_limit \<Rightarrow> bool list" where
  "inverters_appear_offline inverters l =
     map (\<lambda>r. \<not> list_all (\<lambda>j. fgt (r ! j) (limit_at l j)) [0..<df_ncols inverters])
         (df_values inverters)"

definition inverters_offline :: "fval frame \<Rightarrow> fval list \<Rightarrow> low_limit \<Rightarrow> bool list" where
  "inverters_offline inverters meter l =
     map (\<lambda>t. inverters_appear_offline inverters l ! t \<and> meter_appears_low inverters meter l ! t)
         [0..<length (df_values inverters)]"

text \<open>
  Lines 94 to 98: the mask starts all \<open>True\<close>; the rows of \<open>inverters_offline\<close> are
  set to \<^verbatim>\<open>inverters.gt(low_limit)\<close>, and then the rows of \<open>site_offline\<close> to
  \<open>False\<close>.
\<close>

definition online_mask_rows :: "fval frame \<Rightarrow> fval list \<Rightarrow> low_limit \<Rightarrow> bool list list" where
  "online_mask_rows inverters meter l =
     map (\<lambda>t. if site_offline inverters meter l ! t
               then replicate (df_ncols inverters) False
               else if inverters_offline inverters meter l ! t
               then map (\<lambda>j. fgt (df_values inverters ! t ! j) (limit_at l j))
                        [0..<df_ncols inverters]
               else replicate (df_ncols inverters) True)
         [0..<length (df_values inverters)]"

definition is_online :: "fval frame \<Rightarrow> fval list \<Rightarrow> low_limit option \<Rightarrow> bool frame" where
  "is_online inverters meter low_limit =
     (let time_axis = df_index inverters;
          inverters = df_fillna (Fin 0) inverters;
          meter = map (fillna (Fin 0)) meter;
          n_inv = df_ncols inverters;
          l = resolve_low_limit inverters low_limit
      in \<lparr>df_index = time_axis, df_ncols = n_inv,
          df_values = online_mask_rows inverters meter l\<rparr>)"

section \<open>downtime\_loss\<close>

text \<open>
  As before, \<open>inverters\<close>, \<open>meter\<close> and \<open>expected_power\<close> are the inputs after
  \<^verbatim>\<open>fillna(0)\<close>.

  Lines 142 and 143: the median over time of each online inverter's share of the meter,
  normalised by the sum of the medians.
\<close>

definition inverter_shares :: "fval frame \<Rightarrow> fval list \<Rightarrow> bool frame \<Rightarrow> fval list" where
  "inverter_shares inverters meter online_mask =
     (let shares =
        map (\<lambda>j. median_skipna
                    (map (\<lambda>t. fdiv (if df_values online_mask ! t ! j
                                    then df_values inverters ! t ! j else NaN)
                                   (meter ! t))
                         [0..<length (df_values inverters)]))
            [0..<df_ncols inverters]
      in map (\<lambda>s. fdiv s (sum_skipna shares)) shares)"

text \<open>Line 146: a boolean times a float counts \<open>True\<close> as 1 and \<open>False\<close> as 0.\<close>

definition online_fraction_uncorrected :: "fval frame \<Rightarrow> fval list \<Rightarrow> bool frame \<Rightarrow> fval list" where
  "online_fraction_uncorrected inverters meter online_mask =
     map (\<lambda>r. sum_skipna (map (\<lambda>j. fmul (Fin (if r ! j then 1 else 0))
                                       (inverter_shares inverters meter online_mask ! j))
                              [0..<df_ncols online_mask]))
         (df_values online_mask)"

text \<open>Line 151.\<close>

definition inv_sum :: "fval frame \<Rightarrow> fval list" where
  "inv_sum inverters = map sum_skipna (df_values inverters)"

text \<open>Lines 152 and 156.\<close>

definition communications_factor :: "fval frame \<Rightarrow> fval list \<Rightarrow> bool frame \<Rightarrow> fval list" where
  "communications_factor inverters meter online_mask =
     map (\<lambda>t. if online_fraction_uncorrected inverters meter online_mask ! t = Fin 0
               then Fin 1
               else clip_lower (Fin 1) (fdiv (meter ! t) (inv_sum inverters ! t)))
         [0..<length (df_values inverters)]"

text \<open>Lines 157 and 158.\<close>

definition online_fraction :: "fval frame \<Rightarrow> fval list \<Rightarrow> bool frame \<Rightarrow> fval list" where
  "online_fraction inverters meter online_mask =
     map (\<lambda>t. clip_upper (Fin 1)
                 (fmul (online_fraction_uncorrected inverters meter online_mask ! t)
                       (communications_factor inverters meter online_mask ! t)))
         [0..<length (df_values inverters)]"

text \<open>Lines 164 to 167.\<close>

definition estimated_lost_power :: "fval frame \<Rightarrow> fval list \<Rightarrow> bool frame \<Rightarrow> fval list" where
  "estimated_lost_power inverters meter online_mask =
     map (\<lambda>t. let estimated_full_power = fdiv (meter ! t)
                                               (online_fraction inverters meter online_mask ! t)
               in clip_lower (Fin 0) (fsub estimated_full_power (meter ! t)))
         [0..<length (df_values inverters)]"

text \<open>Lines 177 to 179.\<close>

definition replacement_power :: "fval list \<Rightarrow> fval list \<Rightarrow> fval list" where
  "replacement_power expected_power typical_power =
     map (\<lambda>t. if fgt (expected_power ! t) (Fin 0) then expected_power ! t else typical_power ! t)
         [0..<length expected_power]"

text \<open>
  Lines 171 and 183: zero outside daylight, and the replacement power where the
  online fraction is zero in daylight.
\<close>

definition lost_power_unlimited ::
  "fval frame \<Rightarrow> fval list \<Rightarrow> bool frame \<Rightarrow> fval list \<Rightarrow> fval list \<Rightarrow> bool list \<Rightarrow> fval list" where
  "lost_power_unlimited inverters meter online_mask expected_power typical_power is_daylight =
     map (\<lambda>t. if online_fraction inverters meter online_mask ! t = Fin 0 \<and> is_daylight ! t
               then replacement_power expected_power typical_power ! t
               else if \<not> is_daylight ! t then Fin 0
               else estimated_lost_power inverters meter online_mask ! t)
         [0..<length (df_values inverters)]"

text \<open>
  Lines 187 to 190.  The sum of line 187 and the difference of line 189 are rounded to
  float64: the bound of the total power depends on it.
\<close>

definition limit_total_power :: "fval \<Rightarrow> fval list \<Rightarrow> fval list \<Rightarrow> fval list" where
  "limit_total_power system_limit meter lost_power =
     map (\<lambda>t. let total_power = rnd (fadd (meter ! t) (lost_power ! t));
                   total_power_clipped = clip_upper system_limit total_power
               in clip (Fin 0) system_limit (rnd (fsub total_power_clipped (meter ! t))))
         [0..<length lost_power]"

text \<open>
  \<^verbatim>\<open>if system_limit:\<close> holds for a limit that is given and is not zero.  The call of
  \<open>profile_to_signal\<close> in line 176 is the one place that can raise.
\<close>

definition downtime_loss ::
  "fval frame \<Rightarrow> fval list \<Rightarrow> bool frame \<Rightarrow> fval list \<Rightarrow> profile \<Rightarrow> bool list \<Rightarrow> fval option
   \<Rightarrow> error + fval list" where
  "downtime_loss inverters meter online_mask expected_power production_profile is_daylight
                 system_limit =
     (let time_axis = df_index inverters;
          inverters = df_fillna (Fin 0) inverters;
          meter = map (fillna (Fin 0)) meter;
          expected_power = map (fillna (Fin 0)) expected_power
      in case profile_to_signal production_profile time_axis of
           Inl e \<Rightarrow> Inl e
         | Inr typical_power \<Rightarrow>
             (let lost_power = lost_power_unlimited inverters meter online_mask expected_power
                                                    typical_power is_daylight
              in case system_limit of
                   None \<Rightarrow> Inr lost_power
                 | Some s \<Rightarrow> if truthy s then Inr (limit_total_power s meter lost_power)
                             else Inr lost_power))"

section \<open>Example inputs\<close>

text \<open>Concrete inputs at which the theorems below are instantiated.\<close>

definition stamp :: "nat \<Rightarrow> nat \<Rightarrow> nat \<Rightarrow> timestamp" where
  "stamp d m h = \<lparr>year = 2020, month = m, day = d, hour = h, minute = 0\<rparr>"

definition ex_profile :: profile where
  "ex_profile = \<lparr>p_index = [10, 11], p_columns = [6], p_columns_name = Some ''Month'',
                 p_values = [[Fin 50, Fin 60]]\<rparr>"

text \<open>The same table with a column axis that has no name.\<close>

definition ex_unnamed :: profile where
  "ex_unnamed = \<lparr>p_index = [10, 11], p_columns = [6], p_columns_name = None,
                 p_values = [[Fin 50, Fin 60]]\<rparr>"


text \<open>Hours 10 and 11 of June and hour 10 of July, each once.\<close>

definition ex_axis_once :: "timestamp list" where
  "ex_axis_once = [stamp 1 6 10, stamp 1 6 11, stamp 1 7 10]"

text \<open>
  A profile with the single cell 0.1 (the float64 nearest to one tenth), and hour 10 of
  June three times.
\<close>

definition ex_tenth :: profile where
  "ex_tenth = \<lparr>p_index = [10], p_columns = [6], p_columns_name = Some ''Month'',
               p_values = [[Fin (3602879701896397 / 36028797018963968)]]\<rparr>"

definition ex_thrice :: "timestamp list" where
  "ex_thrice = [stamp 1 6 10, stamp 2 6 10, stamp 3 6 10]"

text \<open>
  Two inverters over two timestamps; the second inverter reports nothing at the second
  timestamp.
\<close>

definition ex_inverters :: "fval frame" where
  "ex_inverters = \<lparr>df_index = [stamp 1 6 10, stamp 1 6 11], df_ncols = 2,
                   df_values = [[Fin 100, Fin 100], [Fin 100, NaN]]\<rparr>"

definition ex_offline :: "fval frame" where
  "ex_offline = \<lparr>df_index = [stamp 1 6 10, stamp 1 6 11], df_ncols = 2,
                 df_values = [[Fin 100, Fin 100], [Fin 100, Fin 0]]\<rparr>"

definition ex_offline_mask :: "bool frame" where
  "ex_offline_mask = \<lparr>df_index = [stamp 1 6 10, stamp 1 6 11], df_ncols = 2,
                      df_values = [[True, True], [True, False]]\<rparr>"

text \<open>An inverter that never reports above the threshold, and a plant that is silent.\<close>

definition ex_never_reporting :: "fval frame" where
  "ex_never_reporting = \<lparr>df_index = [stamp 1 6 10], df_ncols = 2,
                          df_values = [[Fin 100, Fin 0]]\<rparr>"

definition ex_silent :: "fval frame" where
  "ex_silent = \<lparr>df_index = [stamp 1 6 10], df_ncols = 3,
                 df_values = [[Fin 0, Fin 0, Fin 0]]\<rparr>"

text \<open>
  One inverter at noon in June and in July, offline in July, with a profile that has
  no July column.
\<close>

definition ex_over :: "fval frame" where
  "ex_over = \<lparr>df_index = [stamp 1 6 12, stamp 1 7 12], df_ncols = 1,
              df_values = [[Fin 10], [Fin 0]]\<rparr>"

definition ex_over_mask :: "bool frame" where
  "ex_over_mask = \<lparr>df_index = [stamp 1 6 12, stamp 1 7 12], df_ncols = 1,
                   df_values = [[True], [False]]\<rparr>"

definition ex_june :: profile where
  "ex_june = \<lparr>p_index = [12], p_columns = [6], p_columns_name = Some ''Month'',
             p_values = [[Fin 3]]\<rparr>"

text \<open>A profile with a negative cell for July.\<close>

definition ex_negative :: profile where
  "ex_negative = \<lparr>p_index = [12], p_columns = [6, 7], p_columns_name = Some ''Month'',
                  p_values = [[Fin 3], [Fin (- 2)]]\<rparr>"

text \<open>
  One inverter on two days at noon in June, offline on the second day, when the meter
  reads 0.3 and the expected power is 5; the system limit is 0.9.  The two fractions
  are the float64 numbers nearest to three tenths and to nine tenths.
\<close>

definition ex_rounding :: "fval frame" where
  "ex_rounding = \<lparr>df_index = [stamp 1 6 12, stamp 2 6 12], df_ncols = 1,
                  df_values = [[Fin (1 / 2)], [Fin 0]]\<rparr>"

definition ex_rounding_mask :: "bool frame" where
  "ex_rounding_mask = \<lparr>df_index = [stamp 1 6 12, stamp 2 6 12], df_ncols = 1,
                       df_values = [[True], [False]]\<rparr>"

definition ex_rounding_meter :: "fval list" where
  "ex_rounding_meter = [Fin (1 / 2), Fin (5404319552844595 / 18014398509481984)]"

definition ex_rounding_limit :: fval where
  "ex_rounding_limit = Fin (8106479329266893 / 9007199254740992)"

text \<open>A meter that reads minus infinity at the second timestamp.\<close>

definition ex_infinite_meter :: "fval list" where
  "ex_infinite_meter = [Fin 200, NInf]"

section \<open>Properties of the profile conversions\<close>

lemma filter_key_map_of:
  "distinct (map fst xs) \<Longrightarrow>
   filter (\<lambda>(k, v). k = a) xs = (case map_of xs a of None \<Rightarrow> [] | Some v \<Rightarrow> [(a, v)])"
proof (induction xs)
  case Nil
  then show ?case by simp
next
  case (Cons x xs)
  obtain k v where x: "x = (k, v)" by (cases x)
  show ?case
  proof (cases "k = a")
    case True
    with Cons.prems x have "a \<notin> fst ` set xs" by auto
    then have "filter (\<lambda>(k, v). k = a) xs = []"
      by (force simp: filter_empty_conv)
    with True x show ?thesis by simp
  next
    case False
    with Cons x show ?thesis by simp
  qed
qed

lemma concat_if_map_of:
  "distinct (map fst xs) \<Longrightarrow>
   concat (map (\<lambda>(k, c). if k = a then F c else []) xs) =
     (case map_of xs a of None \<Rightarrow> [] | Some c \<Rightarrow> F c)"
proof (induction xs)
  case Nil
  then show ?case by simp
next
  case (Cons x xs)
  obtain k v where x: "x = (k, v)" by (cases x)
  show ?case
  proof (cases "k = a")
    case True
    with Cons.prems x have "a \<notin> fst ` set xs" by auto
    then have "concat (map (\<lambda>(k, c). if k = a then F c else []) xs) = []"
      by (induction xs) auto
    with True x show ?thesis by simp
  next
    case False
    with Cons x show ?thesis by simp
  qed
qed

lemma distinct_fst_zip: "distinct xs \<Longrightarrow> distinct (map fst (zip xs ys))"
  by (simp add: map_fst_zip_take)

lemma filter_melt_column:
  assumes "distinct idx"
  shows "filter (\<lambda>(h', m', v). m' = m \<and> h' = h) (map (\<lambda>(h, v). (h, k, v)) (zip idx c)) =
     (if k = m then (case map_of (zip idx c) h of None \<Rightarrow> [] | Some v \<Rightarrow> [(h, m, v)]) else [])"
proof (cases "k = m")
  case False
  then show ?thesis by (auto simp: filter_empty_conv)
next
  case True
  have "filter (\<lambda>(h', m', v). m' = m \<and> h' = h) (map (\<lambda>(h, v). (h, m, v)) (zip idx c)) =
        map (\<lambda>(h, v). (h, m, v)) (filter (\<lambda>(k, v). k = h) (zip idx c))"
    by (simp add: filter_map comp_def case_prod_unfold)
  also have "\<dots> = (case map_of (zip idx c) h of None \<Rightarrow> [] | Some v \<Rightarrow> [(h, m, v)])"
    using filter_key_map_of [OF distinct_fst_zip [OF assms], where a = h and ys1 = c]
    by (simp split: option.splits)
  finally show ?thesis using True by simp
qed

lemma filter_melt:
  assumes "wf_profile p"
  shows "filter (\<lambda>(h', m', v). m' = m \<and> h' = h) (melt p) =
     (case profile_at p h m of None \<Rightarrow> [] | Some v \<Rightarrow> [(h, m, v)])"
proof -
  from assms have di: "distinct (p_index p)" and dc: "distinct (p_columns p)"
    by (simp_all add: wf_profile_def)
  have "filter (\<lambda>(h', m', v). m' = m \<and> h' = h) (melt p) =
        concat (map (\<lambda>(k, c). if k = m
                      then (case map_of (zip (p_index p) c) h of None \<Rightarrow> [] | Some v \<Rightarrow> [(h, m, v)])
                      else []) (zip (p_columns p) (p_values p)))"
    unfolding melt_def filter_concat map_map comp_def
    by (rule arg_cong [where f = concat], rule map_cong [OF refl])
       (auto simp: filter_melt_column [OF di])
  also have "\<dots> = (case map_of (zip (p_columns p) (p_values p)) m of None \<Rightarrow> []
                   | Some c \<Rightarrow> (case map_of (zip (p_index p) c) h of None \<Rightarrow> [] | Some v \<Rightarrow> [(h, m, v)]))"
    by (rule concat_if_map_of [OF distinct_fst_zip [OF dc]])
  also have "\<dots> = (case profile_at p h m of None \<Rightarrow> [] | Some v \<Rightarrow> [(h, m, v)])"
    by (simp add: profile_at_def split: option.splits)
  finally show ?thesis .
qed

lemma merge_left_melt:
  assumes "wf_profile p"
  shows "merge_left aux (melt p) = map (\<lambda>(h, m). cell p h m) aux"
proof (induction aux)
  case Nil
  show ?case by (simp add: merge_left_def)
next
  case (Cons a aux)
  obtain h m where a: "a = (h, m)" by (cases a)
  from Cons have IH: "concat (map (\<lambda>(h, m).
                let ms = filter (\<lambda>(h', m', v). m' = m \<and> h' = h) (melt p)
                in if ms = [] then [NaN] else map (\<lambda>(h', m', v). v) ms) aux) = map (\<lambda>(h, m). cell p h m) aux"
    by (simp add: merge_left_def)
  show ?case
    unfolding merge_left_def
    using IH by (simp add: a filter_melt [OF assms] cell_def Let_def split: option.splits)
qed

lemma profile_to_signal_cells:
  assumes "wf_profile p"
  shows "profile_to_signal p time_axis = Inr (map (\<lambda>t. cell p (hour t) (month t)) time_axis)"
proof -
  from assms have "melt_var_name p = ''Month''"
    by (simp add: wf_profile_def melt_var_name_def)
  then show ?thesis
    by (simp add: profile_to_signal_def merge_left_melt [OF assms] Let_def comp_def)
qed


lemma map_of_graph:
  "map_of (map (\<lambda>k. (k, f k)) ks) k = (if k \<in> set ks then Some (f k) else None)"
  by (induction ks) auto

lemma cell_cases:
  "cell p h m = NaN \<or> (\<exists>c \<in> set (p_values p). cell p h m \<in> set c)"
proof (cases "profile_at p h m")
  case None
  then show ?thesis by (simp add: cell_def)
next
  case (Some v)
  then obtain c where c: "map_of (zip (p_columns p) (p_values p)) m = Some c"
    and v: "map_of (zip (p_index p) c) h = Some v"
    by (auto simp: profile_at_def split: option.splits)
  from c have "c \<in> set (p_values p)"
    by (auto dest!: map_of_SomeD set_zip_rightD)
  moreover from v have "v \<in> set c"
    by (auto dest!: map_of_SomeD set_zip_rightD)
  ultimately show ?thesis
    using Some by (auto simp: cell_def)
qed

text \<open>
  A cell of the table that \<open>signal_to_profile\<close> returns is the group mean of the
  values with that hour and month, and is missing when no timestamp has them.
\<close>

lemma signal_to_profile_cell:
  "cell (signal_to_profile signal) h m =
     (if (h, m) \<in> set (map (\<lambda>(t, v). (hour t, month t)) signal)
      then group_mean (map snd (filter (\<lambda>(k', v). k' = (h, m))
             (map (\<lambda>(t, v). ((hour t, month t), v)) signal)))
      else NaN)"
proof -
  define aux where "aux = map (\<lambda>(t, v). ((hour t, month t), v)) signal"
  define f where "f = (\<lambda>k. group_mean (map snd (filter (\<lambda>(k', v). k' = k) aux)))"
  define ks where "ks = map fst aux"
  define table where "table = map (\<lambda>k. (k, f k)) (filter (\<lambda>k. notna (f k)) (remdups ks))"
  define hours where "hours = sort (remdups (map (\<lambda>((h, m), v). h) table))"
  define months where "months = sort (remdups (map (\<lambda>((h, m), v). m) table))"
  define g where "g = (\<lambda>h m. case map_of table (h, m) of None \<Rightarrow> NaN | Some v \<Rightarrow> v)"
  have keys: "map (\<lambda>(t, v). (hour t, month t)) signal = ks"
    by (simp add: ks_def aux_def comp_def case_prod_unfold)
  have agg: "map (\<lambda>k. (k, group_mean (map snd (filter (\<lambda>(k', v). k' = k) aux)))) (remdups ks) =
             map (\<lambda>k. (k, f k)) (remdups ks)"
    by (simp add: f_def)
  have tab: "filter (\<lambda>(k, v). notna v) (map (\<lambda>k. (k, f k)) (remdups ks)) = table"
    by (simp add: table_def filter_map comp_def)
  have res: "signal_to_profile signal =
      \<lparr>p_index = hours, p_columns = months, p_columns_name = Some ''Month'',
       p_values = map (\<lambda>m. map (\<lambda>h. g h m) hours) months\<rparr>"
    unfolding signal_to_profile_def aux_def [symmetric] Let_def ks_def [symmetric]
    by (simp add: agg tab hours_def months_def g_def)
  have at: "profile_at (signal_to_profile signal) h m =
      (if m \<in> set months \<and> h \<in> set hours then Some (g h m) else None)"
    by (simp add: res profile_at_def map_of_zip_map)
  have look: "map_of table k = (if k \<in> set ks \<and> notna (f k) then Some (f k) else None)" for k
    by (simp add: table_def map_of_graph)
  show ?thesis
  proof (cases "(h, m) \<in> set ks \<and> notna (f (h, m))")
    case True
    then have "((h, m), f (h, m)) \<in> set table"
      by (auto simp: table_def)
    then have "h \<in> set hours" "m \<in> set months"
      by (force simp: hours_def months_def)+
    with True show ?thesis
      unfolding keys by (simp add: cell_def at g_def look f_def aux_def)
  next
    case False
    then have "cell (signal_to_profile signal) h m = NaN"
      by (auto simp: cell_def at g_def look)
    with False show ?thesis
      unfolding keys by (auto simp: notna_def f_def aux_def)
  qed
qed

lemma round64_zero: "round64 0 = Fin 0"
  by (simp add: round64_def)

lemma group_mean_single: "is_float64 c \<Longrightarrow> group_mean [c] = c"
  by (cases c)
     (simp_all add: group_mean_def float64_sum_def notna_def inf_of_sign_def)

lemma ex_profile_wf: "wf_profile ex_profile"
  by (simp add: wf_profile_def ex_profile_def)





text \<open>
  Claim C7, as amended.  For a profile whose column axis is named \<^verbatim>\<open>Month\<close>, whose
  hour labels and month labels are distinct and whose cells are float64 values,
  \<open>profile_to_signal\<close> followed by \<open>signal_to_profile\<close> gives back the cell of the
  original profile at every (hour, month) pair that exactly one timestamp of the time
  axis has (a pair that the original profile does not have, or has as a missing cell, is
  missing in the result).
\<close>

theorem profile_round_trip:
  assumes wf: "wf_profile p"
    and cells: "list_all (list_all is_float64) (p_values p)"
  shows "\<exists>signal. profile_to_signal p time_axis = Inr signal \<and>
           (\<forall>t \<in> set time_axis.
              length (filter (\<lambda>u. hour u = hour t \<and> month u = month t) time_axis) = 1 \<longrightarrow>
              cell (signal_to_profile (zip time_axis signal)) (hour t) (month t) =
              cell p (hour t) (month t))"
proof -
  let ?c = "\<lambda>t. cell p (hour t) (month t)"
  let ?signal = "map ?c time_axis"
  have z: "zip time_axis ?signal = map (\<lambda>t. (t, ?c t)) time_axis"
    by (simp add: zip_map2 zip_same_conv_map)
  have "cell (signal_to_profile (zip time_axis ?signal)) (hour t) (month t) = ?c t"
    if t: "t \<in> set time_axis"
      and once: "length (filter (\<lambda>u. hour u = hour t \<and> month u = month t) time_axis) = 1"
    for t
  proof -
    from once obtain u where
      u: "filter (\<lambda>u. hour u = hour t \<and> month u = month t) time_axis = [u]"
      by (auto simp: length_Suc_conv)
    then have "u \<in> set (filter (\<lambda>u. hour u = hour t \<and> month u = month t) time_axis)"
      by simp
    then have ut: "hour u = hour t" "month u = month t"
      by simp_all
    have "map snd (filter (\<lambda>(k', v). k' = (hour t, month t))
            (map (\<lambda>(t, v). ((hour t, month t), v)) (zip time_axis ?signal))) =
          map ?c (filter (\<lambda>u. hour u = hour t \<and> month u = month t) time_axis)"
      unfolding z by (simp add: filter_map comp_def)
    also have "\<dots> = [?c t]"
      by (simp add: u ut)
    finally have vals: "map snd (filter (\<lambda>(k', v). k' = (hour t, month t))
            (map (\<lambda>(t, v). ((hour t, month t), v)) (zip time_axis ?signal))) = [?c t]" .
    have key: "(hour t, month t) \<in> set (map (\<lambda>(t, v). (hour t, month t)) (zip time_axis ?signal))"
      unfolding z using t by (auto simp: comp_def)
    have "is_float64 (?c t)"
      using cell_cases [of p "hour t" "month t"] cells
      by (auto simp: list_all_iff)
    then have "group_mean [?c t] = ?c t"
      by (rule group_mean_single)
    with key vals show ?thesis
      by (simp only: signal_to_profile_cell if_True)
  qed
  then show ?thesis
    using profile_to_signal_cells [OF wf, of time_axis] by simp
qed

lemma ex_profile_cells: "list_all (list_all is_float64) (p_values ex_profile)"
  by code_simp

theorem profile_round_trip_witness:
  "wf_profile ex_profile \<and> list_all (list_all is_float64) (p_values ex_profile) \<and>
   stamp 1 6 11 \<in> set ex_axis_once \<and>
   length (filter (\<lambda>u. hour u = hour (stamp 1 6 11) \<and> month u = month (stamp 1 6 11))
             ex_axis_once) = 1 \<and>
   (\<exists>signal. profile_to_signal ex_profile ex_axis_once = Inr signal \<and>
      cell (signal_to_profile (zip ex_axis_once signal)) (hour (stamp 1 6 11))
        (month (stamp 1 6 11)) =
      cell ex_profile (hour (stamp 1 6 11)) (month (stamp 1 6 11)) \<and>
      cell ex_profile (hour (stamp 1 6 11)) (month (stamp 1 6 11)) = Fin 60)"
proof -
  from profile_round_trip [OF ex_profile_wf ex_profile_cells, of ex_axis_once] obtain signal where
    s: "profile_to_signal ex_profile ex_axis_once = Inr signal" and
    r: "\<forall>t \<in> set ex_axis_once.
          length (filter (\<lambda>u. hour u = hour t \<and> month u = month t) ex_axis_once) = 1 \<longrightarrow>
          cell (signal_to_profile (zip ex_axis_once signal)) (hour t) (month t) =
          cell ex_profile (hour t) (month t)"
    by blast
  have m: "stamp 1 6 11 \<in> set ex_axis_once"
    by (simp add: ex_axis_once_def)
  have o: "length (filter (\<lambda>u. hour u = hour (stamp 1 6 11) \<and> month u = month (stamp 1 6 11))
             ex_axis_once) = 1"
    by (simp add: ex_axis_once_def stamp_def)
  have c: "cell ex_profile (hour (stamp 1 6 11)) (month (stamp 1 6 11)) = Fin 60"
    by (simp add: cell_def profile_at_def ex_profile_def stamp_def)
  from r m o have "cell (signal_to_profile (zip ex_axis_once signal)) (hour (stamp 1 6 11))
                   (month (stamp 1 6 11)) =
                 cell ex_profile (hour (stamp 1 6 11)) (month (stamp 1 6 11))"
    by blast
  with s m o c ex_profile_wf ex_profile_cells show ?thesis by blast
qed

text \<open>
  Claim C7 as stated fails.  The profile \<open>ex_tenth\<close> has the cell 0.1 at hour 10 of
  June, and the time axis \<open>ex_thrice\<close> has that hour three times.  The signal is
  three times 0.1, their float64 sum is 0.30000000000000004 and the group mean is
  0.10000000000000002, not the cell of the profile.  With a column axis that has no name
  there is no round trip at all.
\<close>

lemma ex_float64_literals:
  "round64 (1 / 10) = Fin (3602879701896397 / 36028797018963968)"
  "round64 (3 / 10) = Fin (5404319552844595 / 18014398509481984)"
  "round64 (9 / 10) = Fin (8106479329266893 / 9007199254740992)"
  by code_simp+

theorem profile_round_trip_rounding:
  "profile_to_signal ex_tenth ex_thrice =
     Inr [Fin (3602879701896397 / 36028797018963968),
          Fin (3602879701896397 / 36028797018963968),
          Fin (3602879701896397 / 36028797018963968)] \<and>
   cell ex_tenth 10 6 = Fin (3602879701896397 / 36028797018963968) \<and>
   cell (signal_to_profile (zip ex_thrice
           [Fin (3602879701896397 / 36028797018963968),
            Fin (3602879701896397 / 36028797018963968),
            Fin (3602879701896397 / 36028797018963968)])) 10 6 =
     Fin (7205759403792795 / 72057594037927936) \<and>
   profile_to_signal ex_unnamed ex_thrice = Inl KeyError"
  by code_simp

section \<open>Properties of is\_online\<close>

lemma fgt_not_flt: "fgt a b \<Longrightarrow> \<not> flt a b"
  by (cases a; cases b) (auto simp: fgt_def)

lemma fmul_one: "fmul (Fin 1) x = x"
  by (cases x) (simp_all add: inf_of_sign_def)

lemma df_fillna_simps [simp]:
  "df_ncols (df_fillna v df) = df_ncols df"
  "df_index (df_fillna v df) = df_index df"
  "length (df_values (df_fillna v df)) = length (df_values df)"
  by (simp_all add: df_fillna_def)

lemma df_fillna_nth:
  "t < length (df_values df) \<Longrightarrow> j < length (df_values df ! t) \<Longrightarrow>
   df_values (df_fillna v df) ! t ! j = fillna v (df_values df ! t ! j)"
  by (simp add: df_fillna_def)

lemma wf_frame_row:
  "wf_frame df \<Longrightarrow> t < length (df_values df) \<Longrightarrow> length (df_values df ! t) = df_ncols df"
  by (simp add: wf_frame_def list_all_length)

lemma all_inverters_appear_offline_nth:
  "t < length (df_values inverters) \<Longrightarrow>
   all_inverters_appear_offline inverters l ! t =
   (\<forall>j < df_ncols inverters. flt (df_values inverters ! t ! j) (limit_at l j))"
  by (auto simp: all_inverters_appear_offline_def list_all_iff)

lemma inverters_appear_offline_nth:
  "t < length (df_values inverters) \<Longrightarrow>
   inverters_appear_offline inverters l ! t =
   (\<not> (\<forall>j < df_ncols inverters. fgt (df_values inverters ! t ! j) (limit_at l j)))"
  by (auto simp: inverters_appear_offline_def list_all_iff)

lemma mean_inverter_power_nth:
  "t < length (df_values inverters) \<Longrightarrow>
   mean_inverter_power inverters meter l ! t =
   (if all_inverters_appear_offline inverters l ! t
    then fdiv (meter ! t) (Fin (real (df_ncols inverters)))
    else mean_sized_power inverters l ! t)"
  by (simp add: mean_inverter_power_def)

lemma meter_delta_nth:
  "t < length (df_values inverters) \<Longrightarrow>
   meter_delta inverters meter l ! t =
   fsub (Fin 1) (fdiv (meter ! t) (fmul (Fin (real (df_ncols inverters)))
                                        (mean_inverter_power inverters meter l ! t)))"
  by (simp add: meter_delta_def)

lemma site_offline_nth:
  "t < length (df_values inverters) \<Longrightarrow>
   site_offline inverters meter l ! t =
   (all_inverters_appear_offline inverters l ! t \<and> meter_appears_offline meter l ! t)"
  by (simp add: site_offline_def)

lemma inverters_offline_nth:
  "t < length (df_values inverters) \<Longrightarrow>
   inverters_offline inverters meter l ! t =
   (inverters_appear_offline inverters l ! t \<and> meter_appears_low inverters meter l ! t)"
  by (simp add: inverters_offline_def)

lemma online_mask_rows_nth:
  "t < length (df_values inverters) \<Longrightarrow>
   online_mask_rows inverters meter l ! t =
   (if site_offline inverters meter l ! t
    then replicate (df_ncols inverters) False
    else if inverters_offline inverters meter l ! t
    then map (\<lambda>j. fgt (df_values inverters ! t ! j) (limit_at l j)) [0..<df_ncols inverters]
    else replicate (df_ncols inverters) True)"
  by (simp add: online_mask_rows_def)

lemma is_online_values:
  "df_values (is_online inverters meter low_limit) =
   online_mask_rows (df_fillna (Fin 0) inverters) (map (fillna (Fin 0)) meter)
     (resolve_low_limit (df_fillna (Fin 0) inverters) low_limit)"
  by (simp add: is_online_def Let_def)

lemma all_less_upt: "(\<forall>j < n. P j) = list_all P [0..<n]"
  by (auto simp: list_all_iff)

text \<open>
  Claim C5.  At a timestamp where every inverter reads below its threshold,
  \<open>mean_inverter_power\<close> is the meter reading divided by the number of inverters, and
  this is the value that \<open>meter_delta\<close> is computed from.  (\<open>inverters\<close>, \<open>meter\<close>
  and \<open>l\<close> stand for the inputs after \<^verbatim>\<open>fillna(0)\<close> and the resolved threshold; the
  statement holds for all values of them.)
\<close>

theorem mean_inverter_power_all_offline:
  assumes "t < length (df_values inverters)"
    and "\<forall>j < df_ncols inverters. flt (df_values inverters ! t ! j) (limit_at l j)"
  shows "mean_inverter_power inverters meter l ! t =
           fdiv (meter ! t) (Fin (real (df_ncols inverters))) \<and>
         meter_delta inverters meter l ! t =
           fsub (Fin 1) (fdiv (meter ! t)
             (fmul (Fin (real (df_ncols inverters)))
                   (fdiv (meter ! t) (Fin (real (df_ncols inverters))))))"
  using assms
  by (simp add: mean_inverter_power_nth meter_delta_nth all_inverters_appear_offline_nth)

lemma ex_silent_below:
  "list_all (\<lambda>j. flt (df_values ex_silent ! 0 ! j) (limit_at (Scalar (Fin 10)) j))
            [0..<df_ncols ex_silent]"
  by code_simp

theorem mean_inverter_power_all_offline_witness:
  "(0::nat) < length (df_values ex_silent) \<and>
   list_all (\<lambda>j. flt (df_values ex_silent ! 0 ! j) (limit_at (Scalar (Fin 10)) j))
            [0..<df_ncols ex_silent] \<and>
   mean_inverter_power ex_silent [Fin 300] (Scalar (Fin 10)) ! 0 = Fin 100"
proof -
  have t: "(0::nat) < length (df_values ex_silent)" by (simp add: ex_silent_def)
  from mean_inverter_power_all_offline [OF t, of "Scalar (Fin 10)" "[Fin 300]"] ex_silent_below
  have "mean_inverter_power ex_silent [Fin 300] (Scalar (Fin 10)) ! 0 =
        fdiv ([Fin 300] ! 0) (Fin (real (df_ncols ex_silent)))"
    by (simp only: all_less_upt)
  with t ex_silent_below show ?thesis by (simp add: ex_silent_def)
qed

text \<open>
  Claim C4.  At a timestamp where every inverter's reading (a missing reading counts as
  zero) is above its resolved threshold, the row of the mask returned by \<open>is_online\<close>
  is all \<open>True\<close>.
\<close>

theorem is_online_all_above:
  assumes wf: "wf_frame inverters"
    and t: "t < length (df_values inverters)"
    and above: "\<forall>j < df_ncols inverters.
                  fgt (fillna (Fin 0) (df_values inverters ! t ! j))
                      (limit_at (resolve_low_limit (df_fillna (Fin 0) inverters) low_limit) j)"
  shows "df_values (is_online inverters meter low_limit) ! t =
         replicate (df_ncols inverters) True"
proof -
  let ?inv = "df_fillna (Fin 0) inverters"
  let ?m = "map (fillna (Fin 0)) meter"
  let ?l = "resolve_low_limit ?inv low_limit"
  from t have t': "t < length (df_values ?inv)" by simp
  have cellj: "df_values ?inv ! t ! j = fillna (Fin 0) (df_values inverters ! t ! j)"
    if "j < df_ncols inverters" for j
    using that t wf_frame_row [OF wf t] by (simp add: df_fillna_nth)
  have gt: "\<forall>j < df_ncols ?inv. fgt (df_values ?inv ! t ! j) (limit_at ?l j)"
    using above cellj by simp
  then have no_off: "\<not> inverters_offline ?inv ?m ?l ! t"
    using t' by (simp add: inverters_offline_nth inverters_appear_offline_nth)
  show ?thesis
  proof (cases "df_ncols inverters = 0")
    case True
    then show ?thesis
      using t' by (simp add: is_online_values online_mask_rows_nth)
  next
    case False
    then have "0 < df_ncols ?inv" by simp
    with gt have "fgt (df_values ?inv ! t ! 0) (limit_at ?l 0)" by blast
    then have "\<not> flt (df_values ?inv ! t ! 0) (limit_at ?l 0)" by (rule fgt_not_flt)
    with \<open>0 < df_ncols ?inv\<close> have "\<not> all_inverters_appear_offline ?inv ?l ! t"
      using t' by (auto simp: all_inverters_appear_offline_nth)
    then have "\<not> site_offline ?inv ?m ?l ! t"
      using t' by (simp add: site_offline_nth)
    with no_off show ?thesis
      using t' by (simp add: is_online_values online_mask_rows_nth)
  qed
qed

lemma ex_inverters_wf: "wf_frame ex_inverters"
  by code_simp

lemma ex_inverters_above:
  "list_all (\<lambda>j. fgt (fillna (Fin 0) (df_values ex_inverters ! 0 ! j))
                      (limit_at (resolve_low_limit (df_fillna (Fin 0) ex_inverters) None) j))
            [0..<df_ncols ex_inverters]"
  by code_simp

theorem is_online_all_above_witness:
  "wf_frame ex_inverters \<and> (0::nat) < length (df_values ex_inverters) \<and>
   list_all (\<lambda>j. fgt (fillna (Fin 0) (df_values ex_inverters ! 0 ! j))
                      (limit_at (resolve_low_limit (df_fillna (Fin 0) ex_inverters) None) j))
            [0..<df_ncols ex_inverters] \<and>
   df_values (is_online ex_inverters [Fin 200, Fin 100] None) ! 0 = [True, True]"
proof -
  have t: "(0::nat) < length (df_values ex_inverters)" by (simp add: ex_inverters_def)
  have n: "replicate (df_ncols ex_inverters) True = [True, True]"
    by (simp add: ex_inverters_def numeral_2_eq_2)
  from is_online_all_above [OF ex_inverters_wf t, of None "[Fin 200, Fin 100]"]
    ex_inverters_above
  have "df_values (is_online ex_inverters [Fin 200, Fin 100] None) ! 0 =
        replicate (df_ncols ex_inverters) True"
    by (simp only: all_less_upt)
  with ex_inverters_wf t ex_inverters_above n show ?thesis by simp
qed

lemma fle_refl: "notna a \<Longrightarrow> fle a a"
  by (cases a) (simp_all add: notna_def)

lemma fle_total: "notna a \<Longrightarrow> notna b \<Longrightarrow> fle a b \<or> fle b a"
  by (cases a; cases b) (auto simp: notna_def)

lemma fle_trans: "fle a b \<Longrightarrow> fle b c \<Longrightarrow> fle a c"
  by (cases a; cases b; cases c) auto

lemma fmin_list_least:
  "xs \<noteq> [] \<Longrightarrow> list_all notna xs \<Longrightarrow>
   fmin_list xs \<in> set xs \<and> (\<forall>x \<in> set xs. fle (fmin_list xs) x)"
proof (induction xs rule: fmin_list.induct)
  case 1
  then show ?case by simp
next
  case (2 x)
  then show ?case by (simp add: fle_refl)
next
  case (3 x y ys)
  let ?m = "fmin_list (y # ys)"
  from 3 have IH: "?m \<in> set (y # ys)" "\<forall>z \<in> set (y # ys). fle ?m z"
    by simp_all
  from 3(3) IH(1) have nm: "notna ?m" and nx: "notna x"
    by (auto simp: list_all_iff)
  show ?case
  proof (cases "fle x ?m")
    case True
    then have "\<forall>z \<in> set (y # ys). fle x z"
      using IH(2) fle_trans by blast
    with True nx show ?thesis
      by (simp add: fmin_def fle_refl)
  next
    case False
    with fle_total [OF nx nm] have "fle ?m x" by blast
    with False IH show ?thesis
      by (simp add: fmin_def)
  qed
qed

lemma filter_notna_masked:
  "filter notna (map (\<lambda>j. fmul (if P j then Fin 1 else NaN) (f j)) js) =
   filter notna (map f (filter P js))"
  by (induction js) (simp_all add: fmul_one notna_def)

lemma smallest_delta_nth:
  "t < length (df_values inverters) \<Longrightarrow>
   smallest_delta inverters l ! t =
   fillna (Fin 1)
     (fmin_list (filter notna (map (\<lambda>j. inverter_fraction inverters l ! j)
        (filter (\<lambda>j. fle (df_values inverters ! t ! j) (limit_at l j)) [0..<df_ncols inverters]))))"
  by (simp add: smallest_delta_def min_skipna_def filter_notna_masked)

lemma meter_appears_low_nth:
  "t < length (df_values inverters) \<Longrightarrow>
   meter_appears_low inverters meter l ! t =
   fgt (meter_delta inverters meter l ! t) (fmul (Fin (3 / 4)) (smallest_delta inverters l ! t))"
  by (simp add: meter_appears_low_def)

text \<open>
  Claim C3, as amended.  At every timestamp \<open>meter_appears_low\<close> is
  \<open>meter_delta > 0.75 * smallest_delta\<close>, with
  \<open>meter_delta = 1 - meter / (n_inv * mean_inverter_power)\<close>.  \<open>smallest_delta\<close> is
  the least inverter fraction among the inverters that read at or below their threshold
  at that timestamp and whose fraction is not missing, and it is 1 when there is no such
  inverter.
\<close>

theorem meter_appears_low_rule:
  assumes t: "t < length (df_values inverters)"
  shows "meter_appears_low inverters meter l ! t =
           fgt (meter_delta inverters meter l ! t)
               (fmul (Fin (3 / 4)) (smallest_delta inverters l ! t)) \<and>
         meter_delta inverters meter l ! t =
           fsub (Fin 1) (fdiv (meter ! t)
             (fmul (Fin (real (df_ncols inverters))) (mean_inverter_power inverters meter l ! t))) \<and>
         (let fractions = filter notna (map (\<lambda>j. inverter_fraction inverters l ! j)
                (filter (\<lambda>j. fle (df_values inverters ! t ! j) (limit_at l j))
                        [0..<df_ncols inverters]))
          in if fractions = [] then smallest_delta inverters l ! t = Fin 1
             else smallest_delta inverters l ! t \<in> set fractions \<and>
                  (\<forall>f \<in> set fractions. fle (smallest_delta inverters l ! t) f))"
proof -
  let ?fr = "filter notna (map (\<lambda>j. inverter_fraction inverters l ! j)
                (filter (\<lambda>j. fle (df_values inverters ! t ! j) (limit_at l j))
                        [0..<df_ncols inverters]))"
  have sd: "smallest_delta inverters l ! t = fillna (Fin 1) (fmin_list ?fr)"
    by (rule smallest_delta_nth [OF t])
  have "if ?fr = [] then smallest_delta inverters l ! t = Fin 1
        else smallest_delta inverters l ! t \<in> set ?fr \<and>
             (\<forall>f \<in> set ?fr. fle (smallest_delta inverters l ! t) f)"
  proof (cases "?fr = []")
    case True
    then show ?thesis by (simp add: sd fillna_def)
  next
    case False
    have "list_all notna ?fr" by (simp add: list_all_iff)
    from fmin_list_least [OF False this]
    have m: "fmin_list ?fr \<in> set ?fr" "\<forall>f \<in> set ?fr. fle (fmin_list ?fr) f"
      by blast+
    from m(1) have "fmin_list ?fr \<noteq> NaN" by (auto simp: notna_def)
    then have "fillna (Fin 1) (fmin_list ?fr) = fmin_list ?fr" by (simp add: fillna_def)
    with m False show ?thesis by (simp only: sd if_False simp_thms)
  qed
  then show ?thesis
    using t by (simp only: meter_appears_low_nth meter_delta_nth Let_def simp_thms)
qed

lemma ex_offline_eval:
  "smallest_delta ex_offline (Scalar (Fin 10)) ! 1 = Fin (1 / 2) \<and>
   meter_delta ex_offline [Fin 200, Fin 100] (Scalar (Fin 10)) ! 1 = Fin (1 / 2)"
  by code_simp

theorem meter_appears_low_rule_witness:
  "(1::nat) < length (df_values ex_offline) \<and>
   meter_appears_low ex_offline [Fin 200, Fin 100] (Scalar (Fin 10)) ! 1 \<and>
   smallest_delta ex_offline (Scalar (Fin 10)) ! 1 = Fin (1 / 2)"
proof -
  have t: "(1::nat) < length (df_values ex_offline)" by (simp add: ex_offline_def)
  from meter_appears_low_rule [OF t, of "[Fin 200, Fin 100]" "Scalar (Fin 10)"]
  have "meter_appears_low ex_offline [Fin 200, Fin 100] (Scalar (Fin 10)) ! 1 =
        fgt (meter_delta ex_offline [Fin 200, Fin 100] (Scalar (Fin 10)) ! 1)
            (fmul (Fin (3 / 4)) (smallest_delta ex_offline (Scalar (Fin 10)) ! 1))"
    by blast
  with ex_offline_eval t show ?thesis by (simp add: fgt_def)
qed

text \<open>
  Claim C3 as stated fails.  The second inverter of \<open>ex_never_reporting\<close> is the
  only one that appears offline (it reads 0, below the threshold 10), and since it is
  never above the threshold its fraction is missing.  \<open>smallest_delta\<close> is then 1,
  not the fraction of an inverter that appears offline, and the meter is judged low
  (0.9 > 0.75).
\<close>

theorem smallest_delta_undefined_fraction:
  "fle (df_values ex_never_reporting ! 0 ! 1) (limit_at (Scalar (Fin 10)) 1) \<and>
   \<not> fle (df_values ex_never_reporting ! 0 ! 0) (limit_at (Scalar (Fin 10)) 0) \<and>
   inverter_fraction ex_never_reporting (Scalar (Fin 10)) = [Fin 1, NaN] \<and>
   smallest_delta ex_never_reporting (Scalar (Fin 10)) ! 0 = Fin 1 \<and>
   meter_delta ex_never_reporting [Fin 20] (Scalar (Fin 10)) ! 0 = Fin (9 / 10) \<and>
   meter_appears_low ex_never_reporting [Fin 20] (Scalar (Fin 10)) ! 0"
  by code_simp

lemma meter_appears_offline_nth:
  "t < length meter \<Longrightarrow> meter_appears_offline meter l ! t = flt (meter ! t) (np_sum l)"
  by (simp add: meter_appears_offline_def)

lemma site_offline_per_inverter:
  assumes "t < length (df_values inverters)" and "t < length meter"
  shows "site_offline inverters meter (PerInverter cs) ! t =
           ((\<forall>j < df_ncols inverters. flt (df_values inverters ! t ! j) (cs ! j)) \<and>
            flt (meter ! t) (sum_skipna cs))"
    and "site_offline inverters meter (PerInverter cs) ! t \<Longrightarrow>
         online_mask_rows inverters meter (PerInverter cs) ! t =
           replicate (df_ncols inverters) False"
  using assms
  by (simp_all add: site_offline_nth all_inverters_appear_offline_nth meter_appears_offline_nth
      online_mask_rows_nth np_sum_def limit_at_def)

text \<open>
  Claim C2.  With a threshold per inverter the site is flagged offline exactly when
  every inverter reads below its threshold and the meter reads below the sum of the
  thresholds (\<open>site_offline_per_inverter\<close>).  With a float threshold the meter is
  compared with the float itself: three silent inverters with the threshold 10 and a
  meter reading of 15, below the sum 30 of the thresholds, are not flagged and the row
  stays all \<open>True\<close>, while the same thresholds given per inverter give the all
  \<open>False\<close> row.
\<close>

theorem is_online_scalar_limit:
  "df_values (is_online ex_silent [Fin 15] (Some (Scalar (Fin 10)))) = [[True, True, True]] \<and>
   df_values (is_online ex_silent [Fin 15] (Some (PerInverter [Fin 10, Fin 10, Fin 10]))) =
     [[False, False, False]]"
  by code_simp

section \<open>Properties of downtime\_loss\<close>

lemma online_fraction_nth:
  "t < length (df_values inverters) \<Longrightarrow>
   online_fraction inverters meter online_mask ! t =
   clip_upper (Fin 1)
     (fmul (online_fraction_uncorrected inverters meter online_mask ! t)
           (communications_factor inverters meter online_mask ! t))"
  by (simp add: online_fraction_def)

lemma communications_factor_nth:
  "t < length (df_values inverters) \<Longrightarrow>
   communications_factor inverters meter online_mask ! t =
   (if online_fraction_uncorrected inverters meter online_mask ! t = Fin 0 then Fin 1
    else clip_lower (Fin 1) (fdiv (meter ! t) (inv_sum inverters ! t)))"
  by (simp add: communications_factor_def)

lemma inv_sum_nth:
  "t < length (df_values inverters) \<Longrightarrow>
   inv_sum inverters ! t = sum_skipna (df_values inverters ! t)"
  by (simp add: inv_sum_def)

lemma clip_lower_one: "clip_lower (Fin 1) r =
   (case r of NaN \<Rightarrow> NaN | NInf \<Rightarrow> Fin 1 | Fin x \<Rightarrow> Fin (max 1 x) | PInf \<Rightarrow> PInf)"
  by (cases r) (auto simp: clip_lower_def)

lemma clip_upper_one: "clip_upper (Fin 1) r =
   (case r of NaN \<Rightarrow> NaN | NInf \<Rightarrow> NInf | Fin x \<Rightarrow> Fin (min 1 x) | PInf \<Rightarrow> Fin 1)"
  by (cases r) (auto simp: clip_upper_def fgt_def)

text \<open>
  Claim C6.  At every timestamp the online fraction is the uncorrected fraction times a
  factor, clipped to at most 1.  The factor is 1 where the uncorrected fraction is
  exactly zero, and otherwise the larger of 1 and the ratio of the meter to the sum of
  the inverter readings (missing where that ratio is \<open>0 / 0\<close>).
\<close>

theorem online_fraction_correction:
  assumes "t < length (df_values inverters)"
  shows "online_fraction inverters meter online_mask ! t =
           (let u = online_fraction_uncorrected inverters meter online_mask ! t;
                r = fdiv (meter ! t) (inv_sum inverters ! t);
                factor = (if u = Fin 0 then Fin 1
                          else case r of NaN \<Rightarrow> NaN | NInf \<Rightarrow> Fin 1
                                       | Fin x \<Rightarrow> Fin (max 1 x) | PInf \<Rightarrow> PInf)
            in case fmul u factor of NaN \<Rightarrow> NaN | NInf \<Rightarrow> NInf
                                   | Fin x \<Rightarrow> Fin (min 1 x) | PInf \<Rightarrow> Fin 1) \<and>
         inv_sum inverters ! t = sum_skipna (df_values inverters ! t)"
  using assms
  by (simp only: online_fraction_nth communications_factor_nth inv_sum_nth
      clip_lower_one clip_upper_one Let_def simp_thms)

lemma ex_offline_fraction:
  "online_fraction_uncorrected ex_offline [Fin 200, Fin 200] ex_offline_mask ! 1 = Fin (1 / 2) \<and>
   fdiv ([Fin 200, Fin 200] ! 1) (inv_sum ex_offline ! 1) = Fin 2"
  by code_simp

theorem online_fraction_correction_witness:
  "(1::nat) < length (df_values ex_offline) \<and>
   online_fraction_uncorrected ex_offline [Fin 200, Fin 200] ex_offline_mask ! 1 = Fin (1 / 2) \<and>
   fdiv ([Fin 200, Fin 200] ! 1) (inv_sum ex_offline ! 1) = Fin 2 \<and>
   online_fraction ex_offline [Fin 200, Fin 200] ex_offline_mask ! 1 = Fin 1"
proof -
  have t: "(1::nat) < length (df_values ex_offline)" by (simp add: ex_offline_def)
  from online_fraction_correction [OF t, of "[Fin 200, Fin 200]" ex_offline_mask] ex_offline_fraction
  have "online_fraction ex_offline [Fin 200, Fin 200] ex_offline_mask ! 1 = Fin 1"
    by (simp add: Let_def)
  with t ex_offline_fraction show ?thesis by simp
qed

lemma estimated_lost_power_nth:
  "t < length (df_values inverters) \<Longrightarrow>
   estimated_lost_power inverters meter online_mask ! t =
   clip_lower (Fin 0)
     (fsub (fdiv (meter ! t) (online_fraction inverters meter online_mask ! t)) (meter ! t))"
  by (simp add: estimated_lost_power_def Let_def)

lemma replacement_power_nth:
  "t < length expected_power \<Longrightarrow>
   replacement_power expected_power typical_power ! t =
   (if fgt (expected_power ! t) (Fin 0) then expected_power ! t else typical_power ! t)"
  by (simp add: replacement_power_def)

lemma lost_power_unlimited_nth:
  "t < length (df_values inverters) \<Longrightarrow>
   lost_power_unlimited inverters meter online_mask expected_power typical_power is_daylight ! t =
   (if online_fraction inverters meter online_mask ! t = Fin 0 \<and> is_daylight ! t
    then replacement_power expected_power typical_power ! t
    else if \<not> is_daylight ! t then Fin 0
    else estimated_lost_power inverters meter online_mask ! t)"
  by (simp add: lost_power_unlimited_def)

lemma lost_power_unlimited_length:
  "length (lost_power_unlimited inverters meter online_mask expected_power typical_power
     is_daylight) = length (df_values inverters)"
  by (simp add: lost_power_unlimited_def)

lemma limit_total_power_nth:
  "t < length lost_power \<Longrightarrow>
   limit_total_power s meter lost_power ! t =
   clip (Fin 0) s (rnd (fsub (clip_upper s (rnd (fadd (meter ! t) (lost_power ! t)))) (meter ! t)))"
  by (simp add: limit_total_power_def Let_def)

text \<open>What \<open>downtime_loss\<close> returns for a profile with distinct labels.\<close>

lemma downtime_loss_result:
  assumes "wf_profile production_profile"
  shows "downtime_loss inverters meter online_mask expected_power production_profile
           is_daylight system_limit =
         (let m = map (fillna (Fin 0)) meter;
              lost_power = lost_power_unlimited (df_fillna (Fin 0) inverters) m online_mask
                 (map (fillna (Fin 0)) expected_power)
                 (map (\<lambda>t. cell production_profile (hour t) (month t)) (df_index inverters))
                 is_daylight
          in case system_limit of
               None \<Rightarrow> Inr lost_power
             | Some s \<Rightarrow> if truthy s then Inr (limit_total_power s m lost_power)
                         else Inr lost_power)"
  by (simp add: downtime_loss_def profile_to_signal_cells [OF assms] Let_def)

text \<open>Rounding keeps the sign: a negative number is rounded to a number that is not positive.\<close>

lemma round_half_even_nonneg: "0 \<le> x \<Longrightarrow> 0 \<le> round_half_even x"
  by (auto simp: round_half_even_def Let_def)

lemma pow2_pos: "0 < pow2 e"
  by (simp add: pow2_def)

lemma round64_negative:
  assumes "x < 0"
  shows "round64 x = NInf \<or> (\<exists>y. y \<le> 0 \<and> round64 x = Fin y)"
proof -
  let ?q = "max (ilog2 \<bar>x\<bar> - 52) (- 1074)"
  let ?m = "round_half_even (\<bar>x\<bar> / pow2 ?q)"
  have "0 \<le> \<bar>x\<bar> / pow2 ?q"
    using pow2_pos [of ?q] by simp
  then have "0 \<le> ?m"
    by (rule round_half_even_nonneg)
  then have "0 \<le> of_int ?m * pow2 ?q"
    using pow2_pos [of ?q] by simp
  with assms show ?thesis
    by (simp add: round64_def Let_def)
qed

lemma limit_at_night:
  assumes s: "\<not> flt s (Fin 0)" and a: "round64 a = Fin a"
  shows "clip (Fin 0) s (rnd (fsub (clip_upper s (rnd (fadd (Fin a) (Fin 0)))) (Fin a))) = Fin 0"
proof -
  have total: "rnd (fadd (Fin a) (Fin 0)) = Fin a"
    using a by simp
  show ?thesis
  proof (cases "fgt (Fin a) s")
    case False
    then have "rnd (fsub (clip_upper s (Fin a)) (Fin a)) = Fin 0"
      by (simp add: clip_upper_def fsub_def round64_zero)
    with s show ?thesis
      unfolding total by (cases s) (auto simp: clip_def clip_upper_def clip_lower_def fgt_def)
  next
    case True
    with s obtain b where b: "s = Fin b" "0 \<le> b" "b < a"
      by (cases s) (auto simp: fgt_def)
    from b(3) have "b - a < 0" by simp
    from round64_negative [OF this]
    have "clip_lower (Fin 0) (round64 (b - a)) = Fin 0"
      by (auto simp: clip_lower_def)
    with True b show ?thesis
      unfolding total
      by (simp add: clip_def clip_upper_def fsub_def fgt_def)
  qed
qed

lemma ex_offline_loss:
  "downtime_loss ex_offline [Fin 200, Fin 100] ex_offline_mask [Fin 0, Fin 0] ex_profile
     [True, True] None = Inr [Fin 0, Fin (200 / 3)]"
  "downtime_loss ex_offline [Fin 200, Fin 100] ex_offline_mask [Fin 0, Fin 0] ex_profile
     [True, True] (Some (Fin 150)) = Inr [Fin 0, Fin 50]"
  by code_simp+

lemma ex_offline_wf: "wf_frame ex_offline"
  by code_simp

lemma ex_offline_meter: "is_float64 ([Fin 200, Fin 100] ! 1)"
  by code_simp

text \<open>
  Claim C10.  A system limit of 0 is not applied: the result is the one of a call
  without a system limit.
\<close>

theorem downtime_loss_zero_limit:
  "downtime_loss inverters meter online_mask expected_power production_profile is_daylight
     (Some (Fin 0)) =
   downtime_loss inverters meter online_mask expected_power production_profile is_daylight None"
  by (simp add: downtime_loss_def truthy_def Let_def split: sum.split)

theorem downtime_loss_zero_limit_witness:
  "downtime_loss ex_offline [Fin 200, Fin 100] ex_offline_mask [Fin 0, Fin 0] ex_profile
     [True, True] (Some (Fin 0)) = Inr [Fin 0, Fin (200 / 3)]"
  using downtime_loss_zero_limit [of ex_offline "[Fin 200, Fin 100]" ex_offline_mask
      "[Fin 0, Fin 0]" ex_profile "[True, True]"] ex_offline_loss(1)
  by simp

text \<open>
  Claim C9, as amended.  For a profile that \<open>profile_to_signal\<close> accepts, at a
  timestamp where \<open>is_daylight\<close> is false the returned lost power is exactly 0, with
  or without a system limit and whatever the other steps computed, provided that a
  system limit that is given is not negative and that the meter reading at the
  timestamp is a float64 number or missing, not an infinity.
\<close>

theorem downtime_loss_not_daylight:
  assumes wf: "wf_profile production_profile"
    and t: "t < length (df_values inverters)" "t < length meter"
    and night: "\<not> is_daylight ! t"
    and finite: "is_float64 (meter ! t)" "meter ! t \<noteq> PInf" "meter ! t \<noteq> NInf"
    and limit: "case system_limit of None \<Rightarrow> True | Some s \<Rightarrow> \<not> flt s (Fin 0)"
  shows "\<exists>lost_power.
           downtime_loss inverters meter online_mask expected_power production_profile
             is_daylight system_limit = Inr lost_power \<and>
           lost_power ! t = Fin 0"
proof -
  let ?m = "map (fillna (Fin 0)) meter"
  let ?lost = "lost_power_unlimited (df_fillna (Fin 0) inverters) ?m online_mask
                 (map (fillna (Fin 0)) expected_power)
                 (map (\<lambda>t. cell production_profile (hour t) (month t)) (df_index inverters))
                 is_daylight"
  from t(1) have t': "t < length (df_values (df_fillna (Fin 0) inverters))" by simp
  have zero: "?lost ! t = Fin 0"
    using night by (simp add: lost_power_unlimited_nth [OF t'])
  have len: "t < length ?lost"
    using t(1) by (simp add: lost_power_unlimited_length)
  from finite obtain a where a: "?m ! t = Fin a" "round64 a = Fin a"
    using t(2) by (cases "meter ! t") (simp_all add: fillna_def round64_zero)
  show ?thesis
  proof (cases system_limit)
    case None
    with zero show ?thesis
      by (simp add: downtime_loss_result [OF wf] Let_def)
  next
    case (Some s)
    with limit have s: "\<not> flt s (Fin 0)" by simp
    have "limit_total_power s ?m ?lost ! t = Fin 0"
      by (simp only: limit_total_power_nth [OF len] zero a(1) limit_at_night [OF s a(2)])
    with zero Some show ?thesis
      by (simp add: downtime_loss_result [OF wf] Let_def)
  qed
qed

theorem downtime_loss_not_daylight_witness:
  "wf_profile ex_profile \<and> (1::nat) < length (df_values ex_offline) \<and>
   \<not> [True, False] ! 1 \<and> is_float64 ([Fin 200, Fin 100] ! 1) \<and>
   \<not> flt (Fin 150) (Fin 0) \<and>
   downtime_loss ex_offline [Fin 200, Fin 100] ex_offline_mask [Fin 0, Fin 0] ex_profile
     [True, True] (Some (Fin 150)) = Inr [Fin 0, Fin 50] \<and>
   (\<exists>lost_power.
      downtime_loss ex_offline [Fin 200, Fin 100] ex_offline_mask [Fin 0, Fin 0] ex_profile
        [True, False] (Some (Fin 150)) = Inr lost_power \<and>
      lost_power ! 1 = Fin 0)"
proof -
  have t: "(1::nat) < length (df_values ex_offline)" "(1::nat) < length [Fin 200, Fin 100]"
    by (simp_all add: ex_offline_def)
  have n: "\<not> [True, False] ! 1" by simp
  have f: "[Fin 200, Fin 100] ! 1 \<noteq> PInf" "[Fin 200, Fin 100] ! 1 \<noteq> NInf" by simp_all
  have l: "case Some (Fin 150) of None \<Rightarrow> True | Some s \<Rightarrow> \<not> flt s (Fin 0)" by simp
  from downtime_loss_not_daylight [OF ex_profile_wf t n ex_offline_meter f l,
      of ex_offline_mask "[Fin 0, Fin 0]"]
    ex_profile_wf t(1) n ex_offline_meter ex_offline_loss(2)
  show ?thesis by simp
qed

text \<open>
  Claim C9 as stated fails.  With the system limit -5 the lost power at the second
  timestamp of \<open>ex_offline\<close>, which is not in daylight, is -5: the bounds 0 and -5 of
  line 190 are taken in their order.  With a meter that reads minus infinity there the
  lost power is missing.  With a column axis that has no name no series is returned.
\<close>

theorem downtime_loss_night_negative_limit:
  "downtime_loss ex_offline [Fin 200, Fin 100] ex_offline_mask [Fin 0, Fin 0] ex_profile
     [True, False] (Some (Fin (- 5))) = Inr [Fin (- 5), Fin (- 5)] \<and>
   downtime_loss ex_offline ex_infinite_meter ex_offline_mask [Fin 0, Fin 0] ex_profile
     [True, False] (Some (Fin 150)) = Inr [Fin 0, NaN] \<and>
   downtime_loss ex_offline [Fin 200, Fin 100] ex_offline_mask [Fin 0, Fin 0] ex_unnamed
     [True, False] (Some (Fin 150)) = Inl KeyError"
  by code_simp

lemma not_negative_iff: "(\<not> flt x (Fin 0)) = (x = NaN \<or> fle (Fin 0) x)"
  by (cases x) auto

lemma clip_lower_not_negative: "\<not> flt (clip_lower (Fin 0) x) (Fin 0)"
  by (cases x) (auto simp: clip_lower_def)

lemma clip_not_negative:
  "\<not> flt s (Fin 0) \<Longrightarrow> \<not> flt (clip (Fin 0) s y) (Fin 0)"
  by (cases s; cases y) (auto simp: clip_def clip_upper_def clip_lower_def fgt_def)

lemma clip_at_most:
  "flt (Fin 0) s \<Longrightarrow> clip (Fin 0) s y = NaN \<or> fle (clip (Fin 0) s y) s"
  by (cases s; cases y) (auto simp: clip_def clip_upper_def clip_lower_def fgt_def)

lemma clip_upper_at_most:
  "flt (Fin 0) s \<Longrightarrow> clip_upper s x = NaN \<or> fle (clip_upper s x) s"
  by (cases s; cases x) (auto simp: clip_upper_def fgt_def)

lemma cell_not_negative:
  assumes "list_all (list_all (\<lambda>v. \<not> flt v (Fin 0))) (p_values p)"
  shows "\<not> flt (cell p h m) (Fin 0)"
  using cell_cases [of p h m] assms
  by (auto simp: list_all_iff)

text \<open>
  Claim C1, as amended.  For a profile that \<open>profile_to_signal\<close> accepts,
  \<open>downtime_loss\<close> returns a series in which, at every timestamp, (a) the lost power
  is at least 0 or missing, provided the profile has no negative cell and a system limit
  that is given is not negative, and (b) when a positive system limit is given, the lost
  power is missing or at most the limit, and it is the float64 difference between a
  total of at most the limit and the meter reading, brought into the range from 0 to the
  limit.  The sum of the meter and the lost power is not bounded by the limit.
\<close>

theorem downtime_loss_bounds:
  assumes wf: "wf_profile production_profile" "wf_frame inverters"
    and t: "t < length (df_values inverters)" "t < length meter" "t < length expected_power"
  shows "\<exists>lost_power.
           downtime_loss inverters meter online_mask expected_power production_profile
             is_daylight system_limit = Inr lost_power \<and>
           (list_all (list_all (\<lambda>v. \<not> flt v (Fin 0))) (p_values production_profile) \<and>
            (case system_limit of None \<Rightarrow> True | Some s \<Rightarrow> \<not> flt s (Fin 0)) \<longrightarrow>
              lost_power ! t = NaN \<or> fle (Fin 0) (lost_power ! t)) \<and>
           (\<forall>s. system_limit = Some s \<and> flt (Fin 0) s \<longrightarrow>
              lost_power ! t = NaN \<or>
              fle (lost_power ! t) s \<and>
              (\<exists>total. fle total s \<and>
                 lost_power ! t =
                   clip (Fin 0) s (rnd (fsub total (fillna (Fin 0) (meter ! t))))))"
proof -
  let ?inv = "df_fillna (Fin 0) inverters"
  let ?m = "map (fillna (Fin 0)) meter"
  let ?e = "map (fillna (Fin 0)) expected_power"
  let ?typical = "map (\<lambda>t. cell production_profile (hour t) (month t)) (df_index inverters)"
  let ?lost = "lost_power_unlimited ?inv ?m online_mask ?e ?typical is_daylight"
  from t(1) have t': "t < length (df_values ?inv)" by simp
  have len: "t < length ?lost"
    using t(1) by (simp add: lost_power_unlimited_length)
  from wf(2) t(1) have ti: "t < length (df_index inverters)"
    by (simp add: wf_frame_def)
  have mt: "?m ! t = fillna (Fin 0) (meter ! t)"
    using t(2) by simp
  have unlimited: "\<not> flt (?lost ! t) (Fin 0)"
    if "list_all (list_all (\<lambda>v. \<not> flt v (Fin 0))) (p_values production_profile)"
  proof -
    have tp: "\<not> flt (?typical ! t) (Fin 0)"
      using ti cell_not_negative [OF that] by simp
    have "\<not> flt (replacement_power ?e ?typical ! t) (Fin 0)"
    proof (cases "fgt (?e ! t) (Fin 0)")
      case True
      then have "\<not> flt (?e ! t) (Fin 0)"
        by (rule fgt_not_flt)
      with True t(3) show ?thesis
        by (simp add: replacement_power_nth)
    next
      case False
      with tp t(3) show ?thesis
        by (simp add: replacement_power_nth)
    qed
    then show ?thesis
      by (simp add: lost_power_unlimited_nth [OF t'] estimated_lost_power_nth [OF t']
          clip_lower_not_negative)
  qed
  show ?thesis
  proof (cases system_limit)
    case None
    with unlimited show ?thesis
      by (simp add: downtime_loss_result [OF wf(1)] Let_def not_negative_iff)
  next
    case (Some s)
    show ?thesis
    proof (cases "truthy s")
      case False
      then have "s = Fin 0" by (simp add: truthy_def)
      with Some unlimited show ?thesis
        by (simp add: downtime_loss_result [OF wf(1)] Let_def not_negative_iff truthy_def)
    next
      case True
      let ?total = "clip_upper s (rnd (fadd (fillna (Fin 0) (meter ! t)) (?lost ! t)))"
      let ?y = "limit_total_power s ?m ?lost ! t"
      have y: "?y = clip (Fin 0) s (rnd (fsub ?total (fillna (Fin 0) (meter ! t))))"
        by (simp only: limit_total_power_nth [OF len] mt)
      have a: "\<not> flt s (Fin 0) \<Longrightarrow> ?y = NaN \<or> fle (Fin 0) ?y"
        unfolding y not_negative_iff [symmetric] by (rule clip_not_negative)
      have b: "?y = NaN \<or>
               fle ?y s \<and>
               (\<exists>total. fle total s \<and>
                  ?y = clip (Fin 0) s (rnd (fsub total (fillna (Fin 0) (meter ! t)))))"
        if pos: "flt (Fin 0) s"
      proof (cases "?total = NaN")
        case True
        then have "?y = NaN"
          unfolding y using pos by (cases s) (simp_all add: fsub_def clip_def clip_upper_def
            clip_lower_def fgt_def)
        then show ?thesis by simp
      next
        case False
        with clip_upper_at_most [OF pos] have "fle ?total s" by blast
        moreover from clip_at_most [OF pos] have "?y = NaN \<or> fle ?y s"
          unfolding y .
        ultimately show ?thesis
          using y by blast
      qed
      from a b Some True show ?thesis
        by (simp add: downtime_loss_result [OF wf(1)] Let_def)
    qed
  qed
qed

theorem downtime_loss_bounds_witness:
  "wf_profile ex_profile \<and> wf_frame ex_offline \<and>
   list_all (list_all (\<lambda>v. \<not> flt v (Fin 0))) (p_values ex_profile) \<and>
   flt (Fin 0) (Fin 150) \<and>
   (\<exists>lost_power.
      downtime_loss ex_offline [Fin 200, Fin 100] ex_offline_mask [Fin 0, Fin 0] ex_profile
        [True, True] (Some (Fin 150)) = Inr lost_power \<and>
      fle (Fin 0) (lost_power ! 1) \<and> fle (lost_power ! 1) (Fin 150) \<and>
      lost_power ! 1 = Fin 50)"
proof -
  have t: "(1::nat) < length (df_values ex_offline)" "(1::nat) < length [Fin 200, Fin 100]"
    "(1::nat) < length [Fin 0, Fin 0 :: fval]"
    by (simp_all add: ex_offline_def)
  have p: "list_all (list_all (\<lambda>v. \<not> flt v (Fin 0))) (p_values ex_profile)"
    by (simp add: ex_profile_def)
  from downtime_loss_bounds [OF ex_profile_wf ex_offline_wf t, where online_mask = ex_offline_mask
      and is_daylight = "[True, True]" and system_limit = "Some (Fin 150)"]
  show ?thesis
    using ex_profile_wf ex_offline_wf p ex_offline_loss(2) by auto
qed

text \<open>
  Claim C1 as stated fails.  With the system limit 5: at the first timestamp of
  \<open>ex_over\<close> the meter reads 10, above the limit, the lost power is 0 and the meter
  plus the lost power exceeds the limit; at the second timestamp the plant is offline in
  daylight, no expected power is given and the profile has no July column, so the lost
  power is missing, which is not at least 0.  With the meter at 0.3 below the limit 0.9
  and a total above the limit, the lost power is the float64 difference
  0.6000000000000001 and the float64 sum of meter and lost power is above 0.9.  With a
  negative cell in the profile and no limit the lost power at the second timestamp is
  that cell, -2; and with the system limit -5 the lost power at the first timestamp is
  -5.  With a column axis that has no name no series is returned.
\<close>

theorem downtime_loss_over_limit:
  "downtime_loss ex_over [Fin 10, Fin 0] ex_over_mask [Fin 0, Fin 0] ex_june [True, True]
     (Some (Fin 5)) = Inr [Fin 0, NaN] \<and>
   \<not> fle (rnd (fadd (Fin 10) (Fin 0))) (Fin 5) \<and> \<not> fle (Fin 0) NaN \<and>
   downtime_loss ex_rounding ex_rounding_meter ex_rounding_mask [Fin 0, Fin 5] ex_june
     [True, True] (Some ex_rounding_limit) =
     Inr [Fin 0, Fin (1351079888211149 / 2251799813685248)] \<and>
   fle (ex_rounding_meter ! 1) ex_rounding_limit \<and>
   \<not> fle (rnd (fadd (ex_rounding_meter ! 1) (Fin (1351079888211149 / 2251799813685248))))
          ex_rounding_limit \<and>
   downtime_loss ex_over [Fin 10, Fin 0] ex_over_mask [Fin 0, Fin 0] ex_negative [True, True]
     None = Inr [Fin 0, Fin (- 2)] \<and>
   downtime_loss ex_over [Fin 10, Fin 0] ex_over_mask [Fin 0, Fin 0] ex_june [True, True]
     (Some (Fin (- 5))) = Inr [Fin (- 5), NaN] \<and>
   downtime_loss ex_over [Fin 10, Fin 0] ex_over_mask [Fin 0, Fin 0] ex_unnamed [True, True]
     (Some (Fin 5)) = Inl KeyError"
  by code_simp

end
